theory Spec2Isabelle
  imports Complex_Main
begin

section \<open>The Moving Averages Distance strategy (solution.py)\<close>

text \<open>
  A shallow embedding of \<^verbatim>\<open>src/solution.py\<close>: the per-symbol price buffer
  \<^verbatim>\<open>SymbolData\<close>, the universe hooks \<^verbatim>\<open>CoarseSelectionFunction\<close> and
  \<^verbatim>\<open>FineSelectionFunction\<close>, and the rebalance in \<^verbatim>\<open>OnData\<close>.

  Conventions of the model.
  \<^item> The algorithm object \<^verbatim>\<open>self\<close> is a record, passed in and returned updated.
  \<^item> A Python exception is a value \<open>Inl e\<close> of the result type \<open>error + 'a\<close>.
  \<^item> Prices are finite reals, and the float64 rounding of the two means and of their
    quotient is idealised to exact real arithmetic. The special values a float64
    computation produces out of finite prices (a division by zero, the mean of an empty
    slice) are kept: see \<open>np_float\<close>.
  \<^item> Comparisons are not idealised: a finite float64 is the real number it denotes, two
    of them compare as these reals do, and the literals \<^verbatim>\<open>1.2\<close> and \<^verbatim>\<open>0.8\<close> are the
    float64 values they denote, \<open>float64_1_2\<close> and \<open>float64_0_8\<close>.
  \<^item> The host engine's objects (price history, the securities table) are parameters.
  \<^item> A result \<open>Inl e\<close> does not record what the call did before it raised.
\<close>

subsection \<open>Errors and float64 results\<close>

datatype error = KeyError | ZeroDivisionError

text \<open>
  The result of a numpy float64 computation: a finite number, an infinity or nan.
  numpy does not raise on a float64 division by zero; it returns \<open>inf\<close> or \<open>nan\<close>.
\<close>

datatype np_float = Fin real | PInf | NInf | NaN

text \<open>\<^verbatim>\<open>np.average(xs)\<close> of a list of finite prices; the mean of an empty list is nan.\<close>

definition np_average :: "real list \<Rightarrow> np_float" where
  "np_average xs = (if xs = [] then NaN else Fin (sum_list xs / real (length xs)))"

text \<open>float64 division \<^verbatim>\<open>a / b\<close> (the sign of a zero is not modelled).\<close>

fun np_div :: "np_float \<Rightarrow> np_float \<Rightarrow> np_float" where
  "np_div NaN b = NaN"
| "np_div a NaN = NaN"
| "np_div (Fin a) (Fin b) =
     (if b = 0 then (if a = 0 then NaN else if 0 < a then PInf else NInf)
      else Fin (a / b))"
| "np_div (Fin a) PInf = Fin 0"
| "np_div (Fin a) NInf = Fin 0"
| "np_div PInf (Fin b) = (if b < 0 then NInf else PInf)"
| "np_div NInf (Fin b) = (if b < 0 then PInf else NInf)"
| "np_div PInf PInf = NaN"
| "np_div PInf NInf = NaN"
| "np_div NInf PInf = NaN"
| "np_div NInf NInf = NaN"

text \<open>The comparisons \<^verbatim>\<open>x >= t\<close> and \<^verbatim>\<open>x <= t\<close> of a float64 \<open>x\<close> against a
  finite float64 \<open>t\<close>: on finite values the comparison of the two numbers, and every
  comparison with nan is false.\<close>

fun np_ge :: "np_float \<Rightarrow> real \<Rightarrow> bool" where
  "np_ge (Fin x) t = (t \<le> x)"
| "np_ge PInf t = True"
| "np_ge NInf t = False"
| "np_ge NaN t = False"

fun np_le :: "np_float \<Rightarrow> real \<Rightarrow> bool" where
  "np_le (Fin x) t = (x \<le> t)"
| "np_le PInf t = False"
| "np_le NInf t = True"
| "np_le NaN t = False"

text \<open>
  The float64 values that the literals \<^verbatim>\<open>1.2\<close> and \<^verbatim>\<open>0.8\<close> of lines 85 and 86
  denote: the nearest multiple of \<open>2^-52\<close> to 6/5, which lies below it, and the
  nearest multiple of \<open>2^-53\<close> to 4/5, which lies above it.
\<close>

definition float64_1_2 :: real where
  "float64_1_2 = 5404319552844595 / 2 ^ 52"

definition float64_0_8 :: real where
  "float64_0_8 = 7205759403792794 / 2 ^ 53"

text \<open>Python's \<^verbatim>\<open>n / count\<close> on integers: it raises when the count is zero.\<close>

definition py_truediv :: "int \<Rightarrow> nat \<Rightarrow> error + real" where
  "py_truediv n count =
     (if count = 0 then Inl ZeroDivisionError else Inr (real_of_int n / real count))"

subsection \<open>The rolling window of the host framework\<close>

text \<open>
  Modelled from the spec: the host framework's \<^verbatim>\<open>RollingWindow[float]\<close> (its
  constructor, \<^verbatim>\<open>Add\<close>, \<^verbatim>\<open>IsReady\<close> and iteration), which \<^verbatim>\<open>SymbolData\<close> wraps
  and which is not among the source files. The spec: a fixed-capacity ordered buffer of
  the most recent N prices; \<^verbatim>\<open>update\<close> appends the newest price and evicts the oldest
  once the capacity is exceeded; ready when the length equals the capacity; a snapshot
  lists the prices newest first.
\<close>

record RollingWindow =
  Size :: nat
  items :: "real list"

text \<open>Modelled from the spec: \<^verbatim>\<open>RollingWindow[float](period)\<close>, an empty buffer of the
  given capacity.\<close>

definition RollingWindow_new :: "nat \<Rightarrow> RollingWindow" where
  "RollingWindow_new n = \<lparr>Size = n, items = []\<rparr>"

text \<open>Modelled from the spec: \<^verbatim>\<open>Add\<close> puts the newest price in front and
  evicts the oldest one once the capacity is exceeded.\<close>

definition Add :: "RollingWindow \<Rightarrow> real \<Rightarrow> RollingWindow" where
  "Add w x =
     (let xs = x # items w
      in w\<lparr>items := (if Size w < length xs then butlast xs else xs)\<rparr>)"

text \<open>Modelled from the spec: \<^verbatim>\<open>IsReady\<close> holds when the length equals the
  capacity.\<close>

definition IsReady :: "RollingWindow \<Rightarrow> bool" where
  "IsReady w = (length (items w) = Size w)"

subsection \<open>SymbolData\<close>

type_synonym symbol = string

record SymbolData =
  Symbol :: symbol
  Prices :: RollingWindow

definition SymbolData_init :: "symbol \<Rightarrow> nat \<Rightarrow> SymbolData" where
  "SymbolData_init symbol period = \<lparr>Symbol = symbol, Prices = RollingWindow_new period\<rparr>"

definition update :: "SymbolData \<Rightarrow> real \<Rightarrow> SymbolData" where
  "update sd price = sd\<lparr>Prices := Add (Prices sd) price\<rparr>"

definition is_ready :: "SymbolData \<Rightarrow> bool" where
  "is_ready sd = IsReady (Prices sd)"

definition return_prices :: "SymbolData \<Rightarrow> real list" where
  "return_prices sd = items (Prices sd)"

text \<open>A sequence of \<^verbatim>\<open>update\<close> calls, the first price of the list first.\<close>

definition updates :: "SymbolData \<Rightarrow> real list \<Rightarrow> SymbolData" where
  "updates sd prices = fold (\<lambda>price d. update d price) prices sd"

subsection \<open>The algorithm object\<close>

record algorithm =
  coarse_count :: nat
  period :: nat
  data :: "symbol \<rightharpoonup> SymbolData"
  long :: "symbol list"
  short :: "symbol list"
  selection_flag :: bool

text \<open>\<^verbatim>\<open>Initialize\<close>: the fields the strategy itself reads.\<close>

definition Initialize :: algorithm where
  "Initialize =
     \<lparr>coarse_count = 500, period = 200, data = Map.empty,
      long = [], short = [], selection_flag = False\<rparr>"

definition Selection :: "algorithm \<Rightarrow> algorithm" where
  "Selection self = self\<lparr>selection_flag := True\<rparr>"

subsection \<open>CoarseSelectionFunction\<close>

text \<open>An element of \<^verbatim>\<open>coarse\<close>: the attributes the function reads.\<close>

record coarse_stock =
  c_Symbol :: symbol
  AdjustedPrice :: real
  HasFundamentalData :: bool
  Market :: string
  Price :: real
  DollarVolume :: real

text \<open>The hook returns \<^verbatim>\<open>Universe.Unchanged\<close> or a list of symbols.\<close>

datatype universe = Unchanged | Selected "symbol list"

text \<open>The first loop: every stock already tracked gets the day's adjusted price.\<close>

definition update_tracked :: "(symbol \<rightharpoonup> SymbolData) \<Rightarrow> coarse_stock \<Rightarrow> (symbol \<rightharpoonup> SymbolData)" where
  "update_tracked d stock =
     (case d (c_Symbol stock) of
        None \<Rightarrow> d
      | Some sd \<Rightarrow> d(c_Symbol stock \<mapsto> update sd (AdjustedPrice stock)))"

text \<open>
  \<^verbatim>\<open>sorted(..., key=lambda x: x.DollarVolume, reverse=True)\<close>: a stable sort by
  descending key, elements of equal key staying in their order.
\<close>

definition sorted_by_dollar_volume :: "coarse_stock list \<Rightarrow> coarse_stock list" where
  "sorted_by_dollar_volume coarse =
     sort_key (\<lambda>x. - DollarVolume x)
       (filter (\<lambda>x. HasFundamentalData x \<and> Market x = ''usa'' \<and> 5 < Price x) coarse)"

text \<open>
  One round of the warm-up loop. \<open>History symbol n\<close> is the host's
  \<^verbatim>\<open>self.History(symbol, n, Resolution.Daily)\<close>, as the list of closes in time order;
  the empty list is an empty frame.
\<close>

definition warmup :: "(symbol \<Rightarrow> nat \<Rightarrow> real list) \<Rightarrow> nat \<Rightarrow> (symbol \<rightharpoonup> SymbolData) \<Rightarrow> symbol
    \<Rightarrow> (symbol \<rightharpoonup> SymbolData)" where
  "warmup History n d symbol =
     (case d symbol of
        Some sd \<Rightarrow> d
      | None \<Rightarrow>
          (let d' = d(symbol \<mapsto> SymbolData_init symbol n);
               history = History symbol n
           in if history = [] then d'
              else d'(symbol \<mapsto> updates (SymbolData_init symbol n) history)))"

text \<open>\<^verbatim>\<open>[x for x in selected if self.data[x].is_ready()]\<close>; a missing key raises.\<close>

fun ready_symbols :: "(symbol \<rightharpoonup> SymbolData) \<Rightarrow> symbol list \<Rightarrow> error + symbol list" where
  "ready_symbols d [] = Inr []"
| "ready_symbols d (x # xs) =
     (case d x of
        None \<Rightarrow> Inl KeyError
      | Some sd \<Rightarrow>
          (case ready_symbols d xs of
             Inl e \<Rightarrow> Inl e
           | Inr ys \<Rightarrow> Inr (if is_ready sd then x # ys else ys)))"

definition CoarseSelectionFunction ::
    "(symbol \<Rightarrow> nat \<Rightarrow> real list) \<Rightarrow> algorithm \<Rightarrow> coarse_stock list \<Rightarrow> error + universe \<times> algorithm" where
  "CoarseSelectionFunction History self coarse =
     (let d1 = fold (\<lambda>stock d. update_tracked d stock) coarse (data self)
      in if \<not> selection_flag self then Inr (Unchanged, self\<lparr>data := d1\<rparr>)
         else
           (let selected = map c_Symbol (sorted_by_dollar_volume coarse);
                d2 = fold (\<lambda>symbol d. warmup History (period self) d symbol) selected d1
            in case ready_symbols d2 selected of
                 Inl e \<Rightarrow> Inl e
               | Inr ready \<Rightarrow>
                   Inr (Selected (take (coarse_count self) ready), self\<lparr>data := d2\<rparr>)))"

subsection \<open>FineSelectionFunction\<close>

record fine_stock =
  f_Symbol :: symbol
  ExchangeId :: string

text \<open>The Python dict \<^verbatim>\<open>MAD\<close>, in insertion order: a new key goes last, a key
  already present keeps its place and takes the new value.\<close>

fun dict_set :: "('k \<times> 'v) list \<Rightarrow> 'k \<Rightarrow> 'v \<Rightarrow> ('k \<times> 'v) list" where
  "dict_set [] k v = [(k, v)]"
| "dict_set ((k', v') # kvs) k v =
     (if k' = k then (k, v) # kvs else (k', v') # dict_set kvs k v)"

text \<open>Lines 80 to 83: the ratio of the two averages of one list of prices, in exact
  arithmetic; the float64 that the code stores differs from it by the rounding of the
  two means and of the division.\<close>

definition mad_of_prices :: "real list \<Rightarrow> np_float" where
  "mad_of_prices prices =
     (let ma21 = np_average (take 21 prices);
          ma200 = np_average prices
      in np_div ma21 ma200)"

text \<open>The loop over \<^verbatim>\<open>fine\<close> that fills \<^verbatim>\<open>MAD\<close>; \<^verbatim>\<open>self.data[symbol]\<close> raises
  on a missing key.\<close>

fun mad_loop :: "(symbol \<rightharpoonup> SymbolData) \<Rightarrow> fine_stock list \<Rightarrow> (symbol \<times> np_float) list
    \<Rightarrow> error + (symbol \<times> np_float) list" where
  "mad_loop d [] MAD = Inr MAD"
| "mad_loop d (stock # rest) MAD =
     (case d (f_Symbol stock) of
        None \<Rightarrow> Inl KeyError
      | Some sd \<Rightarrow>
          mad_loop d rest (dict_set MAD (f_Symbol stock) (mad_of_prices (return_prices sd))))"

definition exchange_filter :: "fine_stock list \<Rightarrow> fine_stock list" where
  "exchange_filter fine =
     filter (\<lambda>x. ExchangeId x = ''NYS'' \<or> ExchangeId x = ''NAS'' \<or> ExchangeId x = ''ASE'') fine"

text \<open>The dict \<^verbatim>\<open>MAD\<close> as the function leaves it after the loop.\<close>

definition MAD_table :: "algorithm \<Rightarrow> fine_stock list \<Rightarrow> error + (symbol \<times> np_float) list" where
  "MAD_table self fine = mad_loop (data self) (exchange_filter fine) []"

text \<open>Lines 85 and 86: the two comprehensions over \<^verbatim>\<open>MAD.items()\<close>, for any
  content of the dict.\<close>

definition long_list :: "(symbol \<times> np_float) list \<Rightarrow> symbol list" where
  "long_list MAD = map fst (filter (\<lambda>x. np_ge (snd x) float64_1_2) MAD)"

definition short_list :: "(symbol \<times> np_float) list \<Rightarrow> symbol list" where
  "short_list MAD = map fst (filter (\<lambda>x. np_le (snd x) float64_0_8) MAD)"

definition FineSelectionFunction :: "algorithm \<Rightarrow> fine_stock list \<Rightarrow> error + symbol list \<times> algorithm" where
  "FineSelectionFunction self fine =
     (case MAD_table self fine of
        Inl e \<Rightarrow> Inl e
      | Inr MAD \<Rightarrow>
          (let long' = long_list MAD;
               short' = short_list MAD
           in Inr (long' @ short', self\<lparr>long := long', short := short'\<rparr>)))"

subsection \<open>OnData\<close>

text \<open>An entry of \<^verbatim>\<open>self.Securities\<close>, and what the function sends to the host.\<close>

record security =
  s_Price :: real
  IsTradable :: bool

datatype order = Liquidate | SetHoldings symbol real

text \<open>
  One of the two loops of the rebalance, over the list \<open>side\<close>: \<open>n\<close> is the
  numerator (\<open>1\<close> or \<open>-1\<close>) and \<open>count\<close> the divisor. The division is evaluated
  inside the guard, once for each symbol that passes it.
\<close>

fun set_side :: "(symbol \<rightharpoonup> security) \<Rightarrow> int \<Rightarrow> nat \<Rightarrow> symbol list \<Rightarrow> error + (symbol \<times> real) list" where
  "set_side Securities n count [] = Inr []"
| "set_side Securities n count (symbol # rest) =
     (case Securities symbol of
        None \<Rightarrow> Inl KeyError
      | Some sec \<Rightarrow>
          if s_Price sec \<noteq> 0 \<and> IsTradable sec then
            (case py_truediv n count of
               Inl e \<Rightarrow> Inl e
             | Inr w \<Rightarrow>
                 (case set_side Securities n count rest of
                    Inl e \<Rightarrow> Inl e
                  | Inr ws \<Rightarrow> Inr ((symbol, w) # ws)))
          else set_side Securities n count rest)"

definition long_weights :: "(symbol \<rightharpoonup> security) \<Rightarrow> algorithm \<Rightarrow> error + (symbol \<times> real) list" where
  "long_weights Securities self =
     (let count_long = length (long self) in set_side Securities 1 count_long (long self))"

definition short_weights :: "(symbol \<rightharpoonup> security) \<Rightarrow> algorithm \<Rightarrow> error + (symbol \<times> real) list" where
  "short_weights Securities self =
     (let count_short = length (short self) in set_side Securities (- 1) count_short (short self))"

definition OnData :: "(symbol \<rightharpoonup> security) \<Rightarrow> algorithm \<Rightarrow> error + order list \<times> algorithm" where
  "OnData Securities self =
     (if \<not> selection_flag self then Inr ([], self)
      else
        (case long_weights Securities self of
           Inl e \<Rightarrow> Inl e
         | Inr lw \<Rightarrow>
             (case short_weights Securities self of
                Inl e \<Rightarrow> Inl e
              | Inr sw \<Rightarrow>
                  Inr (Liquidate # map (\<lambda>(symbol, w). SetHoldings symbol w) (lw @ sw),
                       self\<lparr>selection_flag := False, long := [], short := []\<rparr>))))"

subsection \<open>Predicates used to state the properties\<close>

text \<open>The guard of both loops of \<^verbatim>\<open>OnData\<close>: the symbol has a security with a
  nonzero price that is tradable.\<close>

definition tradable :: "(symbol \<rightharpoonup> security) \<Rightarrow> symbol \<Rightarrow> bool" where
  "tradable Securities symbol =
     (case Securities symbol of
        None \<Rightarrow> False
      | Some sec \<Rightarrow> s_Price sec \<noteq> 0 \<and> IsTradable sec)"

text \<open>The sum of the absolute values of the weights sent for one side.\<close>

definition abs_weight_sum :: "(symbol \<times> real) list \<Rightarrow> real" where
  "abs_weight_sum ws = sum_list (map (\<lambda>(symbol, w). \<bar>w\<bar>) ws)"

text \<open>The test of the comprehension that ends \<^verbatim>\<open>CoarseSelectionFunction\<close>.\<close>

definition ready_in :: "(symbol \<rightharpoonup> SymbolData) \<Rightarrow> symbol \<Rightarrow> bool" where
  "ready_in d x = (case d x of None \<Rightarrow> False | Some sd \<Rightarrow> is_ready sd)"

text \<open>Every window of the dict has capacity \<open>n\<close> and holds at most \<open>n\<close> prices.\<close>

definition windows_ok :: "nat \<Rightarrow> (symbol \<rightharpoonup> SymbolData) \<Rightarrow> bool" where
  "windows_ok n d =
     (\<forall>symbol sd. d symbol = Some sd \<longrightarrow>
        Size (Prices sd) = n \<and> length (return_prices sd) \<le> n)"

text \<open>What holds of the algorithm object from \<^verbatim>\<open>Initialize\<close> on: the two constants
  keep their values and every window was built with capacity 200.\<close>

definition invariant :: "algorithm \<Rightarrow> bool" where
  "invariant self =
     (coarse_count self = 500 \<and> period self = 200 \<and> windows_ok 200 (data self))"

text \<open>The loop invariant of \<open>mad_loop\<close>: keys are distinct and every entry is the
  ratio computed from that symbol's window.\<close>

definition mad_entries_ok :: "(symbol \<rightharpoonup> SymbolData) \<Rightarrow> (symbol \<times> np_float) list \<Rightarrow> bool" where
  "mad_entries_ok d MAD =
     (distinct (map fst MAD) \<and>
      (\<forall>k v. map_of MAD k = Some v \<longrightarrow>
         (\<exists>sd. d k = Some sd \<and> v = mad_of_prices (return_prices sd))))"

subsection \<open>Concrete inputs\<close>

text \<open>
  The fixtures of the spec: a window fed 179 prices \<open>old\<close> and then 21 prices
  \<open>new\<close>, as the only symbol \<^verbatim>\<open>X\<close> of an algorithm, listed on the NYSE.
\<close>

definition fixture_data :: "real \<Rightarrow> real \<Rightarrow> SymbolData" where
  "fixture_data old new =
     updates (SymbolData_init ''X'' 200) (replicate 179 old @ replicate 21 new)"

definition fixture_state :: "real \<Rightarrow> real \<Rightarrow> algorithm" where
  "fixture_state old new = Initialize\<lparr>data := [''X'' \<mapsto> fixture_data old new]\<rparr>"

definition fixture_fine :: "fine_stock list" where
  "fixture_fine = [\<lparr>f_Symbol = ''X'', ExchangeId = ''NYS''\<rparr>]"

text \<open>A securities table with one symbol that is not tradable, and an algorithm about
  to rebalance the given two sides.\<close>

definition example_securities :: "symbol \<rightharpoonup> security" where
  "example_securities =
     [''A'' \<mapsto> \<lparr>s_Price = 10, IsTradable = True\<rparr>,
      ''B'' \<mapsto> \<lparr>s_Price = 20, IsTradable = True\<rparr>,
      ''C'' \<mapsto> \<lparr>s_Price = 30, IsTradable = True\<rparr>,
      ''D'' \<mapsto> \<lparr>s_Price = 40, IsTradable = False\<rparr>]"

definition example_rebalance :: "symbol list \<Rightarrow> symbol list \<Rightarrow> algorithm" where
  "example_rebalance ls ss = Initialize\<lparr>long := ls, short := ss, selection_flag := True\<rparr>"

text \<open>A universe of two stocks on a rebalance day: \<^verbatim>\<open>X\<close> has 200 days of history,
  \<^verbatim>\<open>Y\<close> has three.\<close>

definition example_coarse :: "coarse_stock list" where
  "example_coarse =
     [\<lparr>c_Symbol = ''X'', AdjustedPrice = 10, HasFundamentalData = True, Market = ''usa'',
       Price = 10, DollarVolume = 1000\<rparr>,
      \<lparr>c_Symbol = ''Y'', AdjustedPrice = 20, HasFundamentalData = True, Market = ''usa'',
       Price = 20, DollarVolume = 2000\<rparr>]"

definition example_History :: "symbol \<Rightarrow> nat \<Rightarrow> real list" where
  "example_History symbol n = (if symbol = ''X'' then replicate n 10 else [19, 20, 21])"

section \<open>Properties\<close>

subsection \<open>The rolling window\<close>

lemma Add_items: "length (items w) \<le> Size w \<Longrightarrow> items (Add w x) = take (Size w) (x # items w)"
proof (cases "Size w < Suc (length (items w))")
  case True
  assume "length (items w) \<le> Size w"
  with True have "length (items w) = Size w" by simp
  then show ?thesis by (simp add: Add_def Let_def butlast_conv_take)
next
  case False
  then show ?thesis by (simp add: Add_def Let_def)
qed

lemma Add_Size: "Size (Add w x) = Size w"
  by (simp add: Add_def Let_def)

lemma update_Size: "Size (Prices (update sd p)) = Size (Prices sd)"
  by (simp add: update_def Add_Size)

lemma update_prices:
  "length (return_prices sd) \<le> Size (Prices sd) \<Longrightarrow>
   return_prices (update sd p) = take (Size (Prices sd)) (p # return_prices sd)"
  by (simp add: update_def return_prices_def Add_items)

lemma updates_Size: "Size (Prices (updates sd ps)) = Size (Prices sd)"
  unfolding updates_def by (induction ps arbitrary: sd) (simp_all add: update_Size)

lemma updates_prices:
  "length (return_prices sd) \<le> Size (Prices sd) \<Longrightarrow>
   return_prices (updates sd ps) = take (Size (Prices sd)) (rev ps @ return_prices sd)"
  unfolding updates_def
proof (induction ps arbitrary: sd)
  case Nil
  then show ?case by simp
next
  case (Cons p ps)
  have len: "length (return_prices (update sd p)) \<le> Size (Prices (update sd p))"
    using Cons.prems by (simp add: update_prices update_Size)
  have "return_prices (fold (\<lambda>price d. update d price) ps (update sd p))
      = take (Size (Prices sd)) (rev ps @ take (Size (Prices sd)) (p # return_prices sd))"
    using Cons.IH [OF len] Cons.prems by (simp add: update_prices update_Size)
  also have "\<dots> = take (Size (Prices sd)) (rev ps @ p # return_prices sd)"
    by (simp add: take_append min_def) 
  finally show ?case by simp
qed

lemma init_prices: "return_prices (SymbolData_init symb n) = []"
  and init_Size: "Size (Prices (SymbolData_init symb n)) = n"
  by (simp_all add: SymbolData_init_def RollingWindow_new_def return_prices_def)

lemma updates_init_prices:
  "return_prices (updates (SymbolData_init s n) ps) = take n (rev ps)"
  using updates_prices [of "SymbolData_init s n" ps] by (simp add: init_prices init_Size)

lemma is_ready_updates_init:
  "is_ready (updates (SymbolData_init s n) ps) \<longleftrightarrow> n \<le> length ps"
  using updates_init_prices [of s n ps]
  by (auto simp: is_ready_def IsReady_def return_prices_def updates_Size init_Size)

text \<open>
  Claim C7. For a \<^verbatim>\<open>SymbolData\<close> of capacity 200 holding at most 200 prices (as
  \<^verbatim>\<open>SymbolData(symbol, self.period)\<close> builds it) and every sequence \<open>ps\<close> of
  \<^verbatim>\<open>update\<close> calls: the buffer never holds more than 200 prices; it holds the most
  recent 200 of the prices it was given, newest first; \<^verbatim>\<open>is_ready\<close> is true exactly
  when it holds 200; and once it holds 200, a further \<^verbatim>\<open>update\<close> puts the new price
  in front and drops the oldest one. The window is the one modelled from the spec.
\<close>

theorem SymbolData_window_bounded:
  assumes "Size (Prices sd) = 200" and "length (return_prices sd) \<le> 200"
  shows "length (return_prices (updates sd ps)) \<le> 200
       \<and> return_prices (updates sd ps) = take 200 (rev ps @ return_prices sd)
       \<and> (is_ready (updates sd ps) \<longleftrightarrow> length (return_prices (updates sd ps)) = 200)
       \<and> (length (return_prices (updates sd ps)) = 200 \<longrightarrow>
            return_prices (update (updates sd ps) p) = p # butlast (return_prices (updates sd ps)))"
proof -
  let ?sd = "updates sd ps"
  have sz: "Size (Prices ?sd) = 200" using assms(1) by (simp add: updates_Size)
  have pr: "return_prices ?sd = take 200 (rev ps @ return_prices sd)"
    using updates_prices [of sd ps] assms by simp
  have len: "length (return_prices ?sd) \<le> 200" by (simp add: pr)
  have rdy: "is_ready ?sd \<longleftrightarrow> length (return_prices ?sd) = 200"
    using sz by (simp add: is_ready_def IsReady_def return_prices_def)
  have ev: "length (return_prices ?sd) = 200 \<longrightarrow>
            return_prices (update ?sd p) = p # butlast (return_prices ?sd)"
    using sz by (auto simp: update_def return_prices_def Add_def Let_def)
  from len pr rdy ev show ?thesis by blast
qed

text \<open>A fresh window given 201 prices, then one more.\<close>

theorem SymbolData_window_bounded_witness:
  "Size (Prices (SymbolData_init ''X'' 200)) = 200
   \<and> length (return_prices (SymbolData_init ''X'' 200)) \<le> 200
   \<and> length (return_prices (updates (SymbolData_init ''X'' 200) (replicate 201 5))) = 200
   \<and> is_ready (updates (SymbolData_init ''X'' 200) (replicate 201 5))
   \<and> return_prices (update (updates (SymbolData_init ''X'' 200) (replicate 201 5)) 7)
        = 7 # replicate 199 5"
proof -
  have h1: "Size (Prices (SymbolData_init ''X'' 200)) = 200" by (simp add: init_Size)
  have h2: "length (return_prices (SymbolData_init ''X'' 200)) \<le> 200" by (simp add: init_prices)
  have b: "butlast (replicate 200 (5::real)) = replicate 199 5"
    by (simp add: butlast_conv_take)
  show ?thesis
    using SymbolData_window_bounded [OF h1 h2, of "replicate 201 5" 7] h1 h2 b
    by (simp add: init_prices)
qed

subsection \<open>The fixtures\<close>

lemma fixture_prices:
  "return_prices (fixture_data old new) = replicate 21 new @ replicate 179 old"
  by (simp add: fixture_data_def updates_init_prices)

lemma fixture_ready: "is_ready (fixture_data old new)"
  using fixture_prices [of old new]
  by (simp add: is_ready_def IsReady_def return_prices_def fixture_data_def updates_Size init_Size)

lemma fixture_Size: "Size (Prices (fixture_data old new)) = 200"
  by (simp add: fixture_data_def updates_Size init_Size)

lemma fixture_ma21: "np_average (take 21 (return_prices (fixture_data old new))) = Fin new"
  by (simp add: fixture_prices np_average_def sum_list_replicate)

lemma fixture_ma200:
  "np_average (return_prices (fixture_data old new)) = Fin ((21 * new + 179 * old) / 200)"
  by (simp add: fixture_prices np_average_def sum_list_replicate)

lemma fixture_mad:
  "mad_of_prices (return_prices (fixture_data old new))
     = np_div (Fin new) (Fin ((21 * new + 179 * old) / 200))"
  by (simp only: mad_of_prices_def Let_def fixture_ma21 fixture_ma200)

lemma fixture_MAD_table:
  "MAD_table (fixture_state old new) fixture_fine
     = Inr [(''X'', np_div (Fin new) (Fin ((21 * new + 179 * old) / 200)))]"
  by (simp add: MAD_table_def fixture_state_def fixture_fine_def exchange_filter_def fixture_mad)

lemma fixture_Fine:
  "FineSelectionFunction (fixture_state old new) fixture_fine =
     (let mad = np_div (Fin new) (Fin ((21 * new + 179 * old) / 200));
          long' = (if np_ge mad float64_1_2 then [''X''] else []);
          short' = (if np_le mad float64_0_8 then [''X''] else [])
      in Inr (long' @ short', fixture_state old new\<lparr>long := long', short := short'\<rparr>))"
  by (simp add: FineSelectionFunction_def fixture_MAD_table Let_def long_list_def short_list_def)

subsection \<open>FineSelectionFunction: the ratio\<close>

lemma dict_set_keys: "fst ` set (dict_set m k v) = insert k (fst ` set m)"
  by (induction m k v rule: dict_set.induct) auto

lemma dict_set_distinct: "distinct (map fst m) \<Longrightarrow> distinct (map fst (dict_set m k v))"
  by (induction m k v rule: dict_set.induct) (auto simp: dict_set_keys)

lemma dict_set_map_of: "map_of (dict_set m k v) = (map_of m)(k \<mapsto> v)"
  by (induction m k v rule: dict_set.induct) (auto simp: fun_upd_twist)

lemma mad_entries_ok_Nil: "mad_entries_ok d []"
  by (simp add: mad_entries_ok_def)

lemma mad_entries_ok_set:
  "mad_entries_ok d MAD \<Longrightarrow> d k = Some sd \<Longrightarrow>
   mad_entries_ok d (dict_set MAD k (mad_of_prices (return_prices sd)))"
  by (auto simp: mad_entries_ok_def dict_set_distinct dict_set_map_of)

lemma mad_loop_ok:
  "mad_loop d stocks MAD = Inr MAD' \<Longrightarrow> mad_entries_ok d MAD \<Longrightarrow> mad_entries_ok d MAD'"
proof (induction d stocks MAD rule: mad_loop.induct)
  case (1 d MAD)
  then show ?case by simp
next
  case (2 d stock rest MAD)
  then show ?case
    by (auto split: option.splits intro: mad_entries_ok_set)
qed

lemma mad_loop_keys:
  "mad_loop d stocks MAD = Inr MAD' \<Longrightarrow>
   set (map fst MAD') = set (map fst MAD) \<union> f_Symbol ` set stocks"
proof (induction d stocks MAD rule: mad_loop.induct)
  case (1 d MAD)
  then show ?case by simp
next
  case (2 d stock rest MAD)
  then show ?case
    by (auto split: option.splits simp: dict_set_keys)
qed

lemma mad_loop_total:
  "(\<forall>x \<in> set stocks. d (f_Symbol x) \<noteq> None) \<Longrightarrow> \<exists>MAD'. mad_loop d stocks MAD = Inr MAD'"
  by (induction d stocks MAD rule: mad_loop.induct) (auto split: option.splits)

lemma MAD_table_entry:
  assumes "MAD_table self fine = Inr MAD"
    and "stock \<in> set (exchange_filter fine)"
    and "data self (f_Symbol stock) = Some sd"
  shows "map_of MAD (f_Symbol stock) = Some (mad_of_prices (return_prices sd))"
proof -
  have ok: "mad_entries_ok (data self) MAD"
    using assms(1) mad_loop_ok mad_entries_ok_Nil unfolding MAD_table_def by blast
  have "f_Symbol stock \<in> set (map fst MAD)"
    using mad_loop_keys [of "data self" "exchange_filter fine" "[]" MAD] assms(1,2)
    unfolding MAD_table_def by auto
  then obtain v where v: "map_of MAD (f_Symbol stock) = Some v"
    by (metis map_of_eq_None_iff not_Some_eq set_map)
  from ok v obtain sd' where "data self (f_Symbol stock) = Some sd'"
    and "v = mad_of_prices (return_prices sd')"
    unfolding mad_entries_ok_def by blast
  with assms(3) v show ?thesis by simp
qed

lemma MAD_table_distinct: "MAD_table self fine = Inr MAD \<Longrightarrow> distinct (map fst MAD)"
  using mad_loop_ok mad_entries_ok_Nil unfolding MAD_table_def mad_entries_ok_def by blast

lemma mad_of_prices_200:
  assumes "length prices = 200"
  shows "mad_of_prices prices = np_div (Fin (sum_list (take 21 prices) / 21)) (Fin (sum_list prices / 200))"
proof -
  have "prices \<noteq> []" "take 21 prices \<noteq> []" using assms by auto
  moreover have "length (take 21 prices) = 21" using assms by simp
  ultimately show ?thesis using assms
    by (simp add: mad_of_prices_def np_average_def Let_def)
qed

text \<open>
  Claim C1. For every stock that \<^verbatim>\<open>FineSelectionFunction\<close> processes (it passes the
  exchange filter) whose window is ready, that is, holds exactly 200 prices newest first:
  the value stored in \<^verbatim>\<open>MAD\<close> for its symbol is the mean of the 21 most recent
  prices divided, by float64 division, by the mean of all 200 prices; where the mean of
  the 200 prices is not zero this is the finite quotient of the two means.
\<close>

theorem FineSelectionFunction_mad_ratio:
  assumes "MAD_table self fine = Inr MAD"
    and "stock \<in> set (exchange_filter fine)"
    and "data self (f_Symbol stock) = Some sd"
    and "is_ready sd" and "Size (Prices sd) = 200"
  shows "length (return_prices sd) = 200 \<and> 
     map_of MAD (f_Symbol stock)
       = Some (np_div (Fin (sum_list (take 21 (return_prices sd)) / 21))
                      (Fin (sum_list (return_prices sd) / 200)))
     \<and> (sum_list (return_prices sd) / 200 \<noteq> 0 \<longrightarrow>
          map_of MAD (f_Symbol stock)
            = Some (Fin ((sum_list (take 21 (return_prices sd)) / 21)
                          / (sum_list (return_prices sd) / 200))))"
proof -
  have len: "length (return_prices sd) = 200"
    using assms(4,5) by (simp add: is_ready_def IsReady_def return_prices_def)
  have e: "map_of MAD (f_Symbol stock) = Some (mad_of_prices (return_prices sd))"
    using assms(1-3) by (rule MAD_table_entry)
  show ?thesis using len e by (simp add: mad_of_prices_200)
qed

text \<open>The first fixture of the spec: the means are 120 and 102.1.\<close>

theorem FineSelectionFunction_mad_ratio_witness:
  "MAD_table (fixture_state 100 120) fixture_fine = Inr [(''X'', Fin (1200 / 1021))]
   \<and> is_ready (fixture_data 100 120)
   \<and> length (return_prices (fixture_data 100 120)) = 200
   \<and> map_of [(''X'', Fin (1200 / 1021))] ''X''
       = Some (Fin ((sum_list (take 21 (return_prices (fixture_data 100 120))) / 21)
                     / (sum_list (return_prices (fixture_data 100 120)) / 200)))"
proof -
  have h1: "MAD_table (fixture_state 100 120) fixture_fine = Inr [(''X'', Fin (1200 / 1021))]"
    by (simp add: fixture_MAD_table)
  have h2: "\<lparr>f_Symbol = ''X'', ExchangeId = ''NYS''\<rparr> \<in> set (exchange_filter fixture_fine)"
    by (simp add: exchange_filter_def fixture_fine_def)
  have h3: "data (fixture_state 100 120) (f_Symbol \<lparr>f_Symbol = ''X'', ExchangeId = ''NYS''\<rparr>)
              = Some (fixture_data 100 120)"
    by (simp add: fixture_state_def)
  have nz: "sum_list (return_prices (fixture_data 100 120)) / 200 \<noteq> 0"
    by (simp add: fixture_prices sum_list_replicate)
  show ?thesis
    using FineSelectionFunction_mad_ratio [OF h1 h2 h3 fixture_ready fixture_Size] h1 nz fixture_ready by simp
qed

text \<open>
  Claim C4. For a processed symbol whose window holds 200 prices of mean zero, the
  function does not skip the symbol: it divides by the zero mean, and the value stored in
  \<^verbatim>\<open>MAD\<close> is the result of that division, which is nan or an infinity and never a
  finite number.
\<close>

theorem FineSelectionFunction_zero_mean_unguarded:
  assumes "MAD_table self fine = Inr MAD"
    and "stock \<in> set (exchange_filter fine)"
    and "data self (f_Symbol stock) = Some sd"
    and "length (return_prices sd) = 200"
    and "sum_list (return_prices sd) / 200 = 0"
  shows "map_of MAD (f_Symbol stock)
           = Some (np_div (Fin (sum_list (take 21 (return_prices sd)) / 21)) (Fin 0))
       \<and> (\<forall>x. map_of MAD (f_Symbol stock) \<noteq> Some (Fin x))"
proof -
  have e: "map_of MAD (f_Symbol stock) = Some (mad_of_prices (return_prices sd))"
    using assms(1-3) by (rule MAD_table_entry)
  have "mad_of_prices (return_prices sd)
      = np_div (Fin (sum_list (take 21 (return_prices sd)) / 21)) (Fin 0)"
    using assms(4,5) by (simp add: mad_of_prices_200)
  then show ?thesis using e by simp
qed

text \<open>A window of 200 zero prices: the stored value is nan.\<close>

theorem FineSelectionFunction_zero_mean_unguarded_witness:
  "MAD_table (fixture_state 0 0) fixture_fine = Inr [(''X'', NaN)]
   \<and> length (return_prices (fixture_data 0 0)) = 200
   \<and> sum_list (return_prices (fixture_data 0 0)) / 200 = 0
   \<and> map_of [(''X'', NaN)] ''X''
        = Some (np_div (Fin (sum_list (take 21 (return_prices (fixture_data 0 0))) / 21)) (Fin 0))"
proof -
  have h1: "MAD_table (fixture_state 0 0) fixture_fine = Inr [(''X'', NaN)]"
    by (simp add: fixture_MAD_table)
  have h2: "\<lparr>f_Symbol = ''X'', ExchangeId = ''NYS''\<rparr> \<in> set (exchange_filter fixture_fine)"
    by (simp add: exchange_filter_def fixture_fine_def)
  have h3: "data (fixture_state 0 0) (f_Symbol \<lparr>f_Symbol = ''X'', ExchangeId = ''NYS''\<rparr>)
              = Some (fixture_data 0 0)"
    by (simp add: fixture_state_def)
  have h4: "length (return_prices (fixture_data 0 0)) = 200" by (simp add: fixture_prices)
  have h5: "sum_list (return_prices (fixture_data 0 0)) / 200 = 0"
    by (simp add: fixture_prices sum_list_replicate)
  show ?thesis using FineSelectionFunction_zero_mean_unguarded [OF h1 h2 h3 h4 h5] h1 h4 h5 by simp
qed

subsection \<open>FineSelectionFunction: the two lists\<close>

text \<open>The two thresholds are the float64 values nearest to 6/5 and to 4/5.\<close>

lemma float64_thresholds:
  "float64_1_2 = real_of_int (round (6 / 5 * 2 ^ 52 :: real)) / 2 ^ 52"
  "float64_0_8 = real_of_int (round (4 / 5 * 2 ^ 53 :: real)) / 2 ^ 53"
  "float64_1_2 < 6 / 5" "6 / 5 - float64_1_2 < 1 / 2 ^ 53"
  "4 / 5 < float64_0_8" "float64_0_8 - 4 / 5 < 1 / 2 ^ 54"
  by (simp_all add: float64_1_2_def float64_0_8_def round_def)

lemma np_ge_iff: "np_ge m t \<longleftrightarrow> m = PInf \<or> (\<exists>x. m = Fin x \<and> t \<le> x)"
  by (cases m) simp_all

lemma np_le_iff: "np_le m t \<longleftrightarrow> m = NInf \<or> (\<exists>x. m = Fin x \<and> x \<le> t)"
  by (cases m) simp_all

lemma np_ge_le_excl: "np_ge m float64_1_2 \<Longrightarrow> \<not> np_le m float64_0_8"
  by (cases m) (simp_all add: float64_1_2_def float64_0_8_def)

lemma distinct_filter_mem:
  "distinct (map fst kvs) \<Longrightarrow> (k, v) \<in> set kvs \<Longrightarrow>
   k \<in> set (map fst (filter P kvs)) \<longleftrightarrow> P (k, v)"
  by (induction kvs) (auto simp: rev_image_eqI)

lemma Fine_of_MAD_table:
  "MAD_table self fine = Inr MAD \<Longrightarrow>
   FineSelectionFunction self fine
     = Inr (long_list MAD @ short_list MAD,
            self\<lparr>long := long_list MAD, short := short_list MAD\<rparr>)"
  by (simp add: FineSelectionFunction_def Let_def)

text \<open>
  Claim C2. Let \<^verbatim>\<open>MAD\<close> be the dict that lines 85 and 86 read: any dict of stored
  float64 values, whatever arithmetic computed them, and in particular the one the loop
  of the function has built. For every symbol with a value \<open>mad\<close> in it:
  \<^item> the symbol is in the long list if and only if \<open>mad >= 1.2\<close>, that is, \<open>mad\<close> is
    \<open>+inf\<close> or a finite number not below the float64 that \<^verbatim>\<open>1.2\<close> denotes;
  \<^item> it is in the short list if and only if \<open>mad <= 0.8\<close>, that is, \<open>mad\<close> is
    \<open>-inf\<close> or a finite number not above the float64 that \<^verbatim>\<open>0.8\<close> denotes;
  \<^item> otherwise (\<open>mad\<close> is nan or a finite number strictly between the two) it is in
    neither list, nor in the returned list;
  \<^item> and these two lists are the ones \<^verbatim>\<open>FineSelectionFunction\<close> stores in
    \<^verbatim>\<open>self.long\<close> and \<^verbatim>\<open>self.short\<close> and returns concatenated.
\<close>

theorem FineSelectionFunction_classification:
  assumes "distinct (map fst MAD) \<or> (\<exists>self fine. MAD_table self fine = Inr MAD)"
    and "(symbol, mad) \<in> set MAD"
  shows "(symbol \<in> set (long_list MAD) \<longleftrightarrow>
            mad = PInf \<or> (\<exists>x. mad = Fin x \<and> float64_1_2 \<le> x))
       \<and> (symbol \<in> set (short_list MAD) \<longleftrightarrow>
            mad = NInf \<or> (\<exists>x. mad = Fin x \<and> x \<le> float64_0_8))
       \<and> (mad = NaN \<or> (\<exists>x. mad = Fin x \<and> float64_0_8 < x \<and> x < float64_1_2) \<longrightarrow>
            symbol \<notin> set (long_list MAD) \<and> symbol \<notin> set (short_list MAD)
            \<and> symbol \<notin> set (long_list MAD @ short_list MAD))
       \<and> (\<forall>self fine. MAD_table self fine = Inr MAD \<longrightarrow>
            FineSelectionFunction self fine
              = Inr (long_list MAD @ short_list MAD,
                     self\<lparr>long := long_list MAD, short := short_list MAD\<rparr>))"
proof -
  have d: "distinct (map fst MAD)"
    using assms(1) MAD_table_distinct by blast
  have 1: "symbol \<in> set (long_list MAD) \<longleftrightarrow>
            mad = PInf \<or> (\<exists>x. mad = Fin x \<and> float64_1_2 \<le> x)"
    unfolding long_list_def
    using distinct_filter_mem [OF d assms(2), of "\<lambda>x. np_ge (snd x) float64_1_2"]
    by (simp add: np_ge_iff)
  have 2: "symbol \<in> set (short_list MAD) \<longleftrightarrow>
            mad = NInf \<or> (\<exists>x. mad = Fin x \<and> x \<le> float64_0_8)"
    unfolding short_list_def
    using distinct_filter_mem [OF d assms(2), of "\<lambda>x. np_le (snd x) float64_0_8"]
    by (simp add: np_le_iff)
  have 3: "mad = NaN \<or> (\<exists>x. mad = Fin x \<and> float64_0_8 < x \<and> x < float64_1_2) \<longrightarrow>
            symbol \<notin> set (long_list MAD) \<and> symbol \<notin> set (short_list MAD)
            \<and> symbol \<notin> set (long_list MAD @ short_list MAD)"
    unfolding set_append Un_iff 1 2 by auto
  have 4: "\<forall>self fine. MAD_table self fine = Inr MAD \<longrightarrow>
            FineSelectionFunction self fine
              = Inr (long_list MAD @ short_list MAD,
                     self\<lparr>long := long_list MAD, short := short_list MAD\<rparr>)"
    by (simp add: Fine_of_MAD_table)
  from 1 2 3 4 show ?thesis by blast
qed

text \<open>
  The second fixture of the spec, through the function: a ratio of 2600/2063, in the
  long list only. And a dict of stored values at the two thresholds themselves: the
  float64 that \<^verbatim>\<open>1.2\<close> denotes is classified long, the one that \<^verbatim>\<open>0.8\<close> denotes
  short, nan neither.
\<close>

theorem FineSelectionFunction_classification_witness:
  "MAD_table (fixture_state 100 130) fixture_fine = Inr [(''X'', Fin (2600 / 2063))]
   \<and> float64_1_2 \<le> 2600 / 2063
   \<and> ''X'' \<in> set (long_list [(''X'', Fin (2600 / 2063))])
   \<and> ''X'' \<notin> set (short_list [(''X'', Fin (2600 / 2063))])
   \<and> FineSelectionFunction (fixture_state 100 130) fixture_fine
       = Inr ([''X''], fixture_state 100 130\<lparr>long := [''X''], short := []\<rparr>)
   \<and> distinct (map fst [(''X'', Fin float64_1_2), (''Y'', NaN), (''Z'', Fin float64_0_8)])
   \<and> long_list [(''X'', Fin float64_1_2), (''Y'', NaN), (''Z'', Fin float64_0_8)] = [''X'']
   \<and> short_list [(''X'', Fin float64_1_2), (''Y'', NaN), (''Z'', Fin float64_0_8)] = [''Z'']"
proof -
  have h1: "MAD_table (fixture_state 100 130) fixture_fine = Inr [(''X'', Fin (2600 / 2063))]"
    by (simp add: fixture_MAD_table)
  then have h1': "distinct (map fst [(''X'', Fin (2600 / 2063))])
      \<or> (\<exists>self fine. MAD_table self fine = Inr [(''X'', Fin (2600 / 2063))])"
    by blast
  have h2: "(''X'', Fin (2600 / 2063)) \<in> set [(''X'', Fin (2600 / 2063))]" by simp
  have t: "float64_1_2 \<le> 2600 / 2063" "\<not> 2600 / 2063 \<le> float64_0_8"
    by (simp_all add: float64_1_2_def float64_0_8_def)
  note th = FineSelectionFunction_classification [OF h1' h2]
  have p: "\<exists>x. Fin (2600 / 2063) = Fin x \<and> float64_1_2 \<le> x"
    using t(1) by blast
  have n: "\<not> (Fin q = NInf \<or> (\<exists>x. Fin q = Fin x \<and> x \<le> float64_0_8))"
    if "\<not> q \<le> float64_0_8" for q
    using that by simp
  have a1: "''X'' \<in> set (long_list [(''X'', Fin (2600 / 2063))])"
    using th p by blast
  have a2: "''X'' \<notin> set (short_list [(''X'', Fin (2600 / 2063))])"
    using th n [OF t(2)] by blast
  have a3: "FineSelectionFunction (fixture_state 100 130) fixture_fine
          = Inr (long_list [(''X'', Fin (2600 / 2063))] @ short_list [(''X'', Fin (2600 / 2063))],
                 fixture_state 100 130\<lparr>long := long_list [(''X'', Fin (2600 / 2063))],
                   short := short_list [(''X'', Fin (2600 / 2063))]\<rparr>)"
    using th h1 by blast
  have l: "long_list [(''X'', Fin (2600 / 2063))] = [''X'']"
    and s: "short_list [(''X'', Fin (2600 / 2063))] = []"
    using t by (simp_all add: long_list_def short_list_def)
  have g1: "distinct (map fst [(''X'', Fin float64_1_2), (''Y'', NaN), (''Z'', Fin float64_0_8)])
      \<or> (\<exists>self fine. MAD_table self fine
            = Inr [(''X'', Fin float64_1_2), (''Y'', NaN), (''Z'', Fin float64_0_8)])"
    by simp
  have g2: "(''X'', Fin float64_1_2)
      \<in> set [(''X'', Fin float64_1_2), (''Y'', NaN), (''Z'', Fin float64_0_8)]"
    by simp
  have b: "''X'' \<in> set (long_list [(''X'', Fin float64_1_2), (''Y'', NaN), (''Z'', Fin float64_0_8)])"
    using FineSelectionFunction_classification [OF g1 g2] by blast
  have c: "long_list [(''X'', Fin float64_1_2), (''Y'', NaN), (''Z'', Fin float64_0_8)] = [''X'']"
    "short_list [(''X'', Fin float64_1_2), (''Y'', NaN), (''Z'', Fin float64_0_8)] = [''Z'']"
    by (simp_all add: long_list_def short_list_def float64_1_2_def float64_0_8_def)
  show ?thesis using a1 a2 a3 b c h1 t(1) unfolding l s by simp
qed

text \<open>
  Claim C5. After every run of \<^verbatim>\<open>FineSelectionFunction\<close> that returns, no symbol is
  in both the long list and the short list.
\<close>

theorem FineSelectionFunction_long_short_disjoint:
  assumes "FineSelectionFunction self fine = Inr (result, self')"
  shows "set (long self') \<inter> set (short self') = {}"
proof -
  obtain MAD where m: "MAD_table self fine = Inr MAD"
    and l: "long self' = map fst (filter (\<lambda>x. np_ge (snd x) float64_1_2) MAD)"
    and s: "short self' = map fst (filter (\<lambda>x. np_le (snd x) float64_0_8) MAD)"
    using assms
    by (auto simp: FineSelectionFunction_def Let_def long_list_def short_list_def
        split: sum.splits)
  have d: "distinct (map fst MAD)" using m by (rule MAD_table_distinct)
  show ?thesis
  proof (rule ccontr)
    assume "set (long self') \<inter> set (short self') \<noteq> {}"
    then obtain k where kl: "k \<in> set (long self')" and ks: "k \<in> set (short self')" by auto
    from kl obtain v where v: "(k, v) \<in> set MAD" "np_ge v float64_1_2" unfolding l by auto
    from ks obtain v' where v': "(k, v') \<in> set MAD" "np_le v' float64_0_8" unfolding s by auto
    have "v = v'" using d v(1) v'(1) by (meson eq_key_imp_eq_value)
    with v(2) v'(2) show False using np_ge_le_excl by blast
  qed
qed

text \<open>The third fixture of the spec: the long list is empty, the short list is not.\<close>

theorem FineSelectionFunction_long_short_disjoint_witness:
  "FineSelectionFunction (fixture_state 100 60) fixture_fine
     = Inr ([''X''], fixture_state 100 60\<lparr>long := [], short := [''X'']\<rparr>)
   \<and> set (long (fixture_state 100 60\<lparr>long := [], short := [''X'']\<rparr>))
       \<inter> set (short (fixture_state 100 60\<lparr>long := [], short := [''X'']\<rparr>)) = {}"
proof -
  have h1: "FineSelectionFunction (fixture_state 100 60) fixture_fine
     = Inr ([''X''], fixture_state 100 60\<lparr>long := [], short := [''X'']\<rparr>)"
    by (simp add: fixture_Fine Let_def float64_1_2_def float64_0_8_def)
  show ?thesis using FineSelectionFunction_long_short_disjoint [OF h1] h1 by simp
qed

subsection \<open>The hand-computed fixtures\<close>

text \<open>
  Claim C9, as amended. On the three fixtures the code gives: for 179 prices of 100
  followed by 21 prices of 120, a short mean of 120, a long mean of exactly 102.1 and a
  ratio of 1200/1021 (between 1.175 and 1.176), in neither list; with 130 for 120, a
  ratio of 2600/2063 (between 1.260 and 1.261), in the long list; with 60 for 120, a
  ratio of 300/479 (between 0.626 and 0.627), in the short list. The three
  classifications are the spec's; its values 102.2, 1.174, 1.27 and 0.79 are not.
\<close>

theorem fixture_mad_values:
  "np_average (take 21 (return_prices (fixture_data 100 120))) = Fin 120
   \<and> np_average (return_prices (fixture_data 100 120)) = Fin 102.1
   \<and> MAD_table (fixture_state 100 120) fixture_fine = Inr [(''X'', Fin (1200 / 1021))]
   \<and> (1.175 :: real) < 1200 / 1021 \<and> (1200 / 1021 :: real) < 1.176
   \<and> FineSelectionFunction (fixture_state 100 120) fixture_fine
        = Inr ([], fixture_state 100 120\<lparr>long := [], short := []\<rparr>)
   \<and> MAD_table (fixture_state 100 130) fixture_fine = Inr [(''X'', Fin (2600 / 2063))]
   \<and> (1.260 :: real) < 2600 / 2063 \<and> (2600 / 2063 :: real) < 1.261
   \<and> FineSelectionFunction (fixture_state 100 130) fixture_fine
        = Inr ([''X''], fixture_state 100 130\<lparr>long := [''X''], short := []\<rparr>)
   \<and> MAD_table (fixture_state 100 60) fixture_fine = Inr [(''X'', Fin (300 / 479))]
   \<and> (0.626 :: real) < 300 / 479 \<and> (300 / 479 :: real) < 0.627
   \<and> FineSelectionFunction (fixture_state 100 60) fixture_fine
        = Inr ([''X''], fixture_state 100 60\<lparr>long := [], short := [''X'']\<rparr>)"
  by (simp add: fixture_ma21 fixture_ma200 fixture_MAD_table fixture_Fine Let_def
      float64_1_2_def float64_0_8_def)

text \<open>
  The values of the spec fail: the ratio of the third fixture is 300/479, further than
  0.16 from the 0.79 it gives, and the long mean of the first fixture is 102.1, which
  does not round to 102.2.
\<close>

theorem fixture_spec_values_counterexample:
  "MAD_table (fixture_state 100 60) fixture_fine = Inr [(''X'', Fin (300 / 479))]
   \<and> \<not> \<bar>300 / 479 - 0.79\<bar> \<le> (0.16 :: real)
   \<and> np_average (return_prices (fixture_data 100 120)) = Fin 102.1
   \<and> \<not> \<bar>102.1 - 102.2\<bar> < (0.05 :: real)"
  by (simp add: fixture_ma200 fixture_MAD_table)

subsection \<open>OnData\<close>

lemma set_side_result:
  "set_side Securities n count side = Inr ws \<Longrightarrow>
   ws = map (\<lambda>x. (x, real_of_int n / real count)) (filter (tradable Securities) side)"
proof (induction side arbitrary: ws)
  case Nil
  then show ?case by simp
next
  case (Cons x side)
  then show ?case
    by (auto simp: tradable_def py_truediv_def split: option.splits if_splits sum.splits)
qed

lemma set_side_no_zero_division:
  "count \<noteq> 0 \<or> side = [] \<Longrightarrow> set_side Securities n count side \<noteq> Inl ZeroDivisionError"
proof (induction side)
  case Nil
  then show ?case by simp
next
  case (Cons x side)
  then have c: "count \<noteq> 0" by simp
  then have "set_side Securities n count side \<noteq> Inl ZeroDivisionError"
    using Cons.IH by simp
  with c show ?case
    by (auto simp: py_truediv_def split: option.splits sum.splits)
qed

lemma abs_weight_sum_const:
  "abs_weight_sum (map (\<lambda>x. (x, c)) xs) = real (length xs) * \<bar>c\<bar>"
  by (induction xs) (simp_all add: abs_weight_sum_def algebra_simps)

lemma filter_all: "\<forall>x\<in>set xs. P x \<Longrightarrow> filter P xs = xs"
  by (induction xs) auto

lemma side_sum_one:
  assumes "side \<noteq> []" and "\<forall>x\<in>set side. tradable Securities x"
    and "\<bar>c\<bar> = 1 / real (length side)"
  shows "abs_weight_sum (map (\<lambda>x. (x, c)) (filter (tradable Securities) side)) = 1"
proof -
  have "filter (tradable Securities) side = side" using assms(2) by (rule filter_all)
  moreover have "real (length side) \<noteq> 0" using assms(1) by simp
  ultimately show ?thesis using assms(3) by (simp add: abs_weight_sum_const)
qed

lemma example_tradable:
  "tradable example_securities ''A''" "tradable example_securities ''B''"
  "tradable example_securities ''C''" "\<not> tradable example_securities ''D''"
  by (simp_all add: tradable_def example_securities_def)

lemma example_OnData:
  "OnData example_securities (example_rebalance [''A'', ''B''] [''C''])
     = Inr ([Liquidate, SetHoldings ''A'' (1 / 2), SetHoldings ''B'' (1 / 2), SetHoldings ''C'' (- 1)],
            example_rebalance [''A'', ''B''] [''C'']\<lparr>selection_flag := False, long := [], short := []\<rparr>)"
  by (simp add: OnData_def long_weights_def short_weights_def example_rebalance_def
      example_securities_def py_truediv_def)

text \<open>
  Claim C3, as amended. After a rebalance in \<^verbatim>\<open>OnData\<close>, on each side every symbol
  that passes the guard (a nonzero price, tradable) is sent the weight \<open>1/count_long\<close>,
  respectively \<open>-1/count_short\<close>, where the count is the length of the whole list of
  the side, and a symbol that fails the guard is sent nothing. So the absolute weights of
  a non-empty side sum to 1 when every symbol of the side passes the guard.
\<close>

theorem OnData_side_weights:
  assumes "OnData Securities self = Inr (orders, self')" and "selection_flag self"
  shows "\<exists>lw sw.
      long_weights Securities self = Inr lw \<and> short_weights Securities self = Inr sw
    \<and> orders = Liquidate # map (\<lambda>(symbol, w). SetHoldings symbol w) (lw @ sw)
    \<and> lw = map (\<lambda>x. (x, 1 / real (length (long self)))) (filter (tradable Securities) (long self))
    \<and> sw = map (\<lambda>x. (x, - 1 / real (length (short self)))) (filter (tradable Securities) (short self))
    \<and> (long self \<noteq> [] \<and> (\<forall>x\<in>set (long self). tradable Securities x) \<longrightarrow> abs_weight_sum lw = 1)
    \<and> (short self \<noteq> [] \<and> (\<forall>x\<in>set (short self). tradable Securities x) \<longrightarrow> abs_weight_sum sw = 1)"
proof -
  from assms obtain lw sw where lw: "long_weights Securities self = Inr lw"
    and sw: "short_weights Securities self = Inr sw"
    and o: "orders = Liquidate # map (\<lambda>(symbol, w). SetHoldings symbol w) (lw @ sw)"
    by (auto simp: OnData_def split: sum.splits)
  have l: "lw = map (\<lambda>x. (x, 1 / real (length (long self)))) (filter (tradable Securities) (long self))"
    using set_side_result [of Securities 1 "length (long self)" "long self" lw] lw
    by (simp add: long_weights_def)
  have s: "sw = map (\<lambda>x. (x, - 1 / real (length (short self)))) (filter (tradable Securities) (short self))"
    using set_side_result [of Securities "- 1" "length (short self)" "short self" sw] sw
    by (simp add: short_weights_def)
  have ls: "long self \<noteq> [] \<and> (\<forall>x\<in>set (long self). tradable Securities x) \<longrightarrow> abs_weight_sum lw = 1"
    unfolding l
  proof (intro impI, elim conjE)
    assume "long self \<noteq> []" and "\<forall>x\<in>set (long self). tradable Securities x"
    then show "abs_weight_sum (map (\<lambda>x. (x, 1 / real (length (long self))))
        (filter (tradable Securities) (long self))) = 1"
      by (rule side_sum_one) simp
  qed
  have ss: "short self \<noteq> [] \<and> (\<forall>x\<in>set (short self). tradable Securities x) \<longrightarrow> abs_weight_sum sw = 1"
    unfolding s
  proof (intro impI, elim conjE)
    assume "short self \<noteq> []" and "\<forall>x\<in>set (short self). tradable Securities x"
    then show "abs_weight_sum (map (\<lambda>x. (x, - 1 / real (length (short self))))
        (filter (tradable Securities) (short self))) = 1"
      by (rule side_sum_one) simp
  qed
  from lw sw o l s ls ss show ?thesis by blast
qed

text \<open>Two long symbols and one short symbol, all tradable.\<close>

theorem OnData_side_weights_witness:
  "OnData example_securities (example_rebalance [''A'', ''B''] [''C''])
     = Inr ([Liquidate, SetHoldings ''A'' (1 / 2), SetHoldings ''B'' (1 / 2), SetHoldings ''C'' (- 1)],
            example_rebalance [''A'', ''B''] [''C'']\<lparr>selection_flag := False, long := [], short := []\<rparr>)
   \<and> selection_flag (example_rebalance [''A'', ''B''] [''C''])
   \<and> long_weights example_securities (example_rebalance [''A'', ''B''] [''C''])
        = Inr [(''A'', 1 / 2), (''B'', 1 / 2)]
   \<and> abs_weight_sum [(''A'', 1 / 2), (''B'', 1 / 2)] = 1
   \<and> short_weights example_securities (example_rebalance [''A'', ''B''] [''C''])
        = Inr [(''C'', - 1)]
   \<and> abs_weight_sum [(''C'', - 1)] = 1"
proof -
  have h2: "selection_flag (example_rebalance [''A'', ''B''] [''C''])"
    by (simp add: example_rebalance_def)
  have l: "long (example_rebalance [''A'', ''B''] [''C'']) = [''A'', ''B'']"
    and s: "short (example_rebalance [''A'', ''B''] [''C'']) = [''C'']"
    by (simp_all add: example_rebalance_def)
  from OnData_side_weights [OF example_OnData h2] obtain lw sw where
    lw: "long_weights example_securities (example_rebalance [''A'', ''B''] [''C'']) = Inr lw"
    and sw: "short_weights example_securities (example_rebalance [''A'', ''B''] [''C'']) = Inr sw"
    and lv: "lw = map (\<lambda>x. (x, 1 / real (length (long (example_rebalance [''A'', ''B''] [''C'']))))) 
               (filter (tradable example_securities) (long (example_rebalance [''A'', ''B''] [''C''])))"
    and sv: "sw = map (\<lambda>x. (x, - 1 / real (length (short (example_rebalance [''A'', ''B''] [''C''])))))
               (filter (tradable example_securities) (short (example_rebalance [''A'', ''B''] [''C''])))"
    and ls: "long (example_rebalance [''A'', ''B''] [''C'']) \<noteq> []
               \<and> (\<forall>x\<in>set (long (example_rebalance [''A'', ''B''] [''C''])). tradable example_securities x)
             \<longrightarrow> abs_weight_sum lw = 1"
    and ss: "short (example_rebalance [''A'', ''B''] [''C'']) \<noteq> []
               \<and> (\<forall>x\<in>set (short (example_rebalance [''A'', ''B''] [''C''])). tradable example_securities x)
             \<longrightarrow> abs_weight_sum sw = 1"
    by blast
  have lw': "lw = [(''A'', 1 / 2), (''B'', 1 / 2)]"
    using lv by (simp add: l example_tradable)
  have sw': "sw = [(''C'', - 1)]"
    using sv by (simp add: s example_tradable)
  have "abs_weight_sum lw = 1" using ls by (simp add: l example_tradable)
  moreover have "abs_weight_sum sw = 1" using ss by (simp add: s example_tradable)
  ultimately show ?thesis using example_OnData h2 lw sw lw' sw' by simp
qed

text \<open>
  The sum is not 1 for every non-empty side: with the long list \<^verbatim>\<open>[A, D]\<close> and
  \<^verbatim>\<open>D\<close> not tradable, the only weight sent is 1/2 for \<^verbatim>\<open>A\<close>.
\<close>

theorem OnData_side_sum_counterexample:
  "long (example_rebalance [''A'', ''D''] []) \<noteq> []
   \<and> OnData example_securities (example_rebalance [''A'', ''D''] [])
       = Inr ([Liquidate, SetHoldings ''A'' (1 / 2)],
              example_rebalance [''A'', ''D''] []\<lparr>selection_flag := False, long := [], short := []\<rparr>)
   \<and> long_weights example_securities (example_rebalance [''A'', ''D''] []) = Inr [(''A'', 1 / 2)]
   \<and> abs_weight_sum [(''A'', 1 / 2)] = 1 / 2
   \<and> abs_weight_sum [(''A'', 1 / 2)] \<noteq> 1"
  by (simp add: OnData_def long_weights_def short_weights_def example_rebalance_def
      example_securities_def py_truediv_def abs_weight_sum_def)

text \<open>
  Claim C8. \<^verbatim>\<open>OnData\<close> never raises \<^verbatim>\<open>ZeroDivisionError\<close>, whatever the two lists
  are: each division sits in the loop over its own side and is not evaluated when that
  side is empty. For an empty side no weight is sent.
\<close>

theorem OnData_no_zero_division:
  "OnData Securities self \<noteq> Inl ZeroDivisionError
   \<and> long_weights Securities self \<noteq> Inl ZeroDivisionError
   \<and> short_weights Securities self \<noteq> Inl ZeroDivisionError
   \<and> (long self = [] \<longrightarrow> long_weights Securities self = Inr [])
   \<and> (short self = [] \<longrightarrow> short_weights Securities self = Inr [])"
proof -
  have l: "long_weights Securities self \<noteq> Inl ZeroDivisionError"
    unfolding long_weights_def Let_def by (rule set_side_no_zero_division) auto
  have s: "short_weights Securities self \<noteq> Inl ZeroDivisionError"
    unfolding short_weights_def Let_def by (rule set_side_no_zero_division) auto
  have o: "OnData Securities self \<noteq> Inl ZeroDivisionError"
    using l s by (auto simp: OnData_def split: sum.splits)
  show ?thesis using l s o by (simp add: long_weights_def short_weights_def)
qed

text \<open>An empty long side next to a short side of one symbol.\<close>

theorem OnData_no_zero_division_witness:
  "long (example_rebalance [] [''C'']) = []
   \<and> long_weights example_securities (example_rebalance [] [''C'']) = Inr []
   \<and> OnData example_securities (example_rebalance [] [''C''])
       = Inr ([Liquidate, SetHoldings ''C'' (- 1)],
              example_rebalance [] [''C'']\<lparr>selection_flag := False, long := [], short := []\<rparr>)
   \<and> OnData example_securities (example_rebalance [] [''C'']) \<noteq> Inl ZeroDivisionError"
proof -
  have l: "long (example_rebalance [] [''C'']) = []" by (simp add: example_rebalance_def)
  have o: "OnData example_securities (example_rebalance [] [''C''])
       = Inr ([Liquidate, SetHoldings ''C'' (- 1)],
              example_rebalance [] [''C'']\<lparr>selection_flag := False, long := [], short := []\<rparr>)"
    by (simp add: OnData_def long_weights_def short_weights_def example_rebalance_def
        example_securities_def py_truediv_def)
  show ?thesis using OnData_no_zero_division [of example_securities "example_rebalance [] [''C'']"] l o by simp
qed

subsection \<open>CoarseSelectionFunction\<close>

lemma windows_ok_update_tracked:
  "windows_ok n d \<Longrightarrow> windows_ok n (update_tracked d stock)"
  unfolding windows_ok_def update_tracked_def
  by (auto split: option.splits simp: update_Size update_prices)

lemma windows_ok_fold_update_tracked:
  "windows_ok n d \<Longrightarrow> windows_ok n (fold (\<lambda>stock d. update_tracked d stock) coarse d)"
  by (induction coarse arbitrary: d) (simp_all add: windows_ok_update_tracked)

lemma windows_ok_init: "Size (Prices (SymbolData_init s n)) = n \<and> length (return_prices (SymbolData_init s n)) \<le> n"
  by (simp add: init_prices init_Size)

lemma windows_ok_updates_init:
  "Size (Prices (updates (SymbolData_init s n) ps)) = n
   \<and> length (return_prices (updates (SymbolData_init s n) ps)) \<le> n"
  using updates_prices [of "SymbolData_init s n" ps]
  by (simp add: updates_Size init_Size init_prices)

lemma windows_ok_warmup:
  "windows_ok n d \<Longrightarrow> windows_ok n (warmup History n d symbol)"
  unfolding windows_ok_def warmup_def Let_def
  using windows_ok_init windows_ok_updates_init
  by (auto split: option.splits)

lemma windows_ok_fold_warmup:
  "windows_ok n d \<Longrightarrow> windows_ok n (fold (\<lambda>symbol d. warmup History n d symbol) selected d)"
  by (induction selected arbitrary: d) (simp_all add: windows_ok_warmup)

lemma dom_warmup: "dom (warmup History n d symbol) = insert symbol (dom d)"
  by (auto simp: warmup_def Let_def split: option.splits if_splits)

lemma dom_fold_warmup:
  "dom (fold (\<lambda>symbol d. warmup History n d symbol) selected d) = dom d \<union> set selected"
  by (induction selected arbitrary: d) (auto simp: dom_warmup)

lemma ready_symbols_filter:
  "set xs \<subseteq> dom d \<Longrightarrow> ready_symbols d xs = Inr (filter (ready_in d) xs)"
  by (induction xs) (auto simp: ready_in_def)

lemma Coarse_unflagged:
  "\<not> selection_flag self \<Longrightarrow>
   CoarseSelectionFunction History self coarse =
     Inr (Unchanged, self\<lparr>data := fold (\<lambda>stock d. update_tracked d stock) coarse (data self)\<rparr>)"
  by (simp add: CoarseSelectionFunction_def)

lemma Coarse_flagged:
  assumes "selection_flag self"
  shows "CoarseSelectionFunction History self coarse =
     (let selected = map c_Symbol (sorted_by_dollar_volume coarse);
          d2 = fold (\<lambda>symbol d. warmup History (period self) d symbol) selected
                 (fold (\<lambda>stock d. update_tracked d stock) coarse (data self))
      in Inr (Selected (take (coarse_count self) (filter (ready_in d2) selected)),
              self\<lparr>data := d2\<rparr>))"
proof -
  let ?sel = "map c_Symbol (sorted_by_dollar_volume coarse)"
  let ?d1 = "fold (\<lambda>stock d. update_tracked d stock) coarse (data self)"
  let ?d2 = "fold (\<lambda>symbol d. warmup History (period self) d symbol) ?sel ?d1"
  have "set ?sel \<subseteq> dom ?d2" by (simp add: dom_fold_warmup)
  then have "ready_symbols ?d2 ?sel = Inr (filter (ready_in ?d2) ?sel)"
    by (rule ready_symbols_filter)
  then show ?thesis using assms by (simp add: CoarseSelectionFunction_def Let_def)
qed

lemma Coarse_invariant:
  assumes "invariant self" and "CoarseSelectionFunction History self coarse = Inr (u, self')"
  shows "invariant self'"
proof (cases "selection_flag self")
  case False
  then show ?thesis using assms windows_ok_fold_update_tracked [of 200 "data self" coarse]
    by (auto simp: Coarse_unflagged invariant_def)
next
  case True
  have "windows_ok 200 (fold (\<lambda>symbol d. warmup History 200 d symbol)
          (map c_Symbol (sorted_by_dollar_volume coarse))
          (fold (\<lambda>stock d. update_tracked d stock) coarse (data self)))"
    using assms(1) by (simp add: invariant_def windows_ok_fold_warmup windows_ok_fold_update_tracked)
  then show ?thesis using assms True
    by (auto simp: Coarse_flagged Let_def invariant_def)
qed

text \<open>The invariant holds after \<^verbatim>\<open>Initialize\<close> and every hook keeps it.\<close>

lemma Initialize_invariant: "invariant Initialize"
  by (simp add: invariant_def Initialize_def windows_ok_def)

lemma Selection_invariant: "invariant self \<Longrightarrow> invariant (Selection self)"
  by (simp add: invariant_def Selection_def)

lemma Fine_invariant:
  "invariant self \<Longrightarrow> FineSelectionFunction self fine = Inr (r, self') \<Longrightarrow> invariant self'"
  by (auto simp: invariant_def FineSelectionFunction_def Let_def split: sum.splits)

lemma OnData_invariant:
  "invariant self \<Longrightarrow> OnData Securities self = Inr (r, self') \<Longrightarrow> invariant self'"
  by (auto simp: invariant_def OnData_def split: sum.splits if_splits)

lemma example_selected:
  "map c_Symbol (sorted_by_dollar_volume example_coarse) = [''Y'', ''X'']"
  by (simp add: sorted_by_dollar_volume_def example_coarse_def)

lemma example_tracked:
  "fold (\<lambda>stock d. update_tracked d stock) example_coarse Map.empty = Map.empty"
  by (simp add: example_coarse_def update_tracked_def)

lemma example_warm:
  "fold (\<lambda>symbol d. warmup example_History 200 d symbol) [''Y'', ''X''] Map.empty
     = [''Y'' \<mapsto> updates (SymbolData_init ''Y'' 200) [19, 20, 21],
        ''X'' \<mapsto> updates (SymbolData_init ''X'' 200) (replicate 200 10)]"
  by (simp add: warmup_def example_History_def Let_def)

lemma example_Coarse:
  "CoarseSelectionFunction example_History (Selection Initialize) example_coarse
     = Inr (Selected [''X''],
            Selection Initialize
              \<lparr>data := [''Y'' \<mapsto> updates (SymbolData_init ''Y'' 200) [19, 20, 21],
                        ''X'' \<mapsto> updates (SymbolData_init ''X'' 200) (replicate 200 10)]\<rparr>)"
proof -
  have f: "selection_flag (Selection Initialize)" by (simp add: Selection_def)
  have d: "data (Selection Initialize) = Map.empty" "period (Selection Initialize) = 200"
    "coarse_count (Selection Initialize) = 500"
    by (simp_all add: Selection_def Initialize_def)
  show ?thesis
    unfolding Coarse_flagged [OF f] d example_selected example_tracked example_warm Let_def
    by (simp add: ready_in_def is_ready_updates_init)
qed

text \<open>
  Claim C6. \<^verbatim>\<open>CoarseSelectionFunction\<close> always returns and never raises, and when
  it returns a list of symbols, every symbol of the list has a window of exactly 200
  prices: a symbol whose window holds fewer than 200 prices is not in the list.
\<close>

theorem CoarseSelectionFunction_excludes_unready:
  assumes "invariant self"
  shows "\<exists>u self'. CoarseSelectionFunction History self coarse = Inr (u, self')
     \<and> invariant self'
     \<and> (\<forall>xs. u = Selected xs \<longrightarrow>
          (\<forall>x\<in>set xs. \<exists>sd. data self' x = Some sd \<and> length (return_prices sd) = 200)
        \<and> (\<forall>x sd. data self' x = Some sd \<and> length (return_prices sd) < 200 \<longrightarrow> x \<notin> set xs))"
proof -
  obtain u self' where r: "CoarseSelectionFunction History self coarse = Inr (u, self')"
    by (cases "selection_flag self") (simp_all add: Coarse_unflagged Coarse_flagged Let_def)
  have inv: "invariant self'" using assms r by (rule Coarse_invariant)
  have sel: "\<forall>x\<in>set xs. \<exists>sd. data self' x = Some sd \<and> length (return_prices sd) = 200"
    if u: "u = Selected xs" for xs
  proof
    fix x assume x: "x \<in> set xs"
    have f: "selection_flag self" using r u by (cases "selection_flag self") (auto simp: Coarse_unflagged)
    from r u x f have "ready_in (data self') x"
      by (auto simp: Coarse_flagged Let_def dest: in_set_takeD)
    then obtain sd where sd: "data self' x = Some sd" "is_ready sd"
      by (auto simp: ready_in_def split: option.splits)
    moreover have "Size (Prices sd) = 200"
      using inv sd(1) by (auto simp: invariant_def windows_ok_def)
    ultimately show "\<exists>sd. data self' x = Some sd \<and> length (return_prices sd) = 200"
      by (auto simp: is_ready_def IsReady_def return_prices_def)
  qed
  have "(\<forall>x\<in>set xs. \<exists>sd. data self' x = Some sd \<and> length (return_prices sd) = 200)
        \<and> (\<forall>x sd. data self' x = Some sd \<and> length (return_prices sd) < 200 \<longrightarrow> x \<notin> set xs)"
    if u: "u = Selected xs" for xs
    using sel [OF u] by fastforce
  with r inv show ?thesis by blast
qed

text \<open>Of the two stocks of the example, \<^verbatim>\<open>Y\<close> has three prices and is left out.\<close>

theorem CoarseSelectionFunction_excludes_unready_witness:
  "invariant (Selection Initialize)
   \<and> CoarseSelectionFunction example_History (Selection Initialize) example_coarse
     = Inr (Selected [''X''],
            Selection Initialize
              \<lparr>data := [''Y'' \<mapsto> updates (SymbolData_init ''Y'' 200) [19, 20, 21],
                        ''X'' \<mapsto> updates (SymbolData_init ''X'' 200) (replicate 200 10)]\<rparr>)
   \<and> length (return_prices (updates (SymbolData_init ''Y'' 200) [19, 20, 21])) < 200
   \<and> ''Y'' \<notin> set [''X'']"
proof -
  have i: "invariant (Selection Initialize)"
    using Initialize_invariant by (rule Selection_invariant)
  show ?thesis
    using CoarseSelectionFunction_excludes_unready [OF i, of example_History example_coarse] i example_Coarse
    by (simp add: updates_init_prices)
qed

text \<open>
  Claim C10. On a rebalance day (\<^verbatim>\<open>selection_flag\<close> set) the function returns the
  first 500 of the ready symbols in descending order of dollar volume: a list of at most
  500 symbols.
\<close>

theorem CoarseSelectionFunction_at_most_500:
  assumes "invariant self" and "selection_flag self"
  shows "\<exists>xs self'. CoarseSelectionFunction History self coarse = Inr (Selected xs, self')
     \<and> xs = take 500 (filter (ready_in (data self')) (map c_Symbol (sorted_by_dollar_volume coarse)))
     \<and> length xs \<le> 500"
  using assms by (simp add: Coarse_flagged Let_def invariant_def)

text \<open>The example universe on a rebalance day.\<close>

theorem CoarseSelectionFunction_at_most_500_witness:
  "invariant (Selection Initialize) \<and> selection_flag (Selection Initialize)
   \<and> CoarseSelectionFunction example_History (Selection Initialize) example_coarse
     = Inr (Selected [''X''],
            Selection Initialize
              \<lparr>data := [''Y'' \<mapsto> updates (SymbolData_init ''Y'' 200) [19, 20, 21],
                        ''X'' \<mapsto> updates (SymbolData_init ''X'' 200) (replicate 200 10)]\<rparr>)
   \<and> length [''X''] \<le> (500::nat)"
proof -
  have i: "invariant (Selection Initialize)"
    using Initialize_invariant by (rule Selection_invariant)
  have f: "selection_flag (Selection Initialize)" by (simp add: Selection_def)
  show ?thesis
    using CoarseSelectionFunction_at_most_500 [OF i f, of example_History example_coarse] i f example_Coarse
    by simp
qed

end
